theory Spec2Isabelle
  imports Main
begin

section \<open>The order and payment model of solid.py\<close>

text \<open>
  The program is object-oriented Python: objects are mutated in place and are shared by
  reference. The embedding threads an explicit store, \<open>world\<close>, through every operation.
  An object is named by its identity (a natural number) and the store maps identities to
  the objects' own attribute dictionaries.

  Python looks an attribute up in the instance's own dictionary first and in the class
  afterwards. The class \<open>Order\<close> declares \<open>items\<close>, \<open>quantities\<close>, \<open>prices\<close> and
  \<open>status\<close> in the class body, so these four are attributes of the class: the three list
  objects exist once, and every instance that has no attribute of its own under that name
  reads and appends to the list of the class. An assignment \<open>obj.attr = v\<close> writes the
  instance's own dictionary. Names are strings; quantities and prices are Python integers,
  unbounded, hence \<open>int\<close>.
\<close>

type_synonym oid = nat
type_synonym aid = nat

text \<open>
  The exceptions that the operations can raise: \<open>Exception("Not Authorized")\<close> of
  \<open>DebitPaymentProcessor.pay\<close>, the \<open>IndexError\<close> of a list index out of range, and the
  \<open>AttributeError\<close> of a method that the object's class does not have.
\<close>

datatype error = NotAuthorized | IndexError | AttributeError

text \<open>
  The own dictionary of an \<open>Order\<close> instance: \<open>None\<close> where the instance has no entry and
  the class attribute is read. A list held by the instance itself is a list that the
  instance alone refers to (the test suite assigns a new \<open>[]\<close>), so it is kept by value.
\<close>

record order_inst =
  d_items :: "string list option"
  d_quantities :: "int list option"
  d_prices :: "int list option"
  d_status :: "string option"

text \<open>
  An authorizer is an instance of \<open>SMSAuth\<close> or of \<open>NotARobot\<close>; the argument is the
  instance's own \<open>authorized\<close> entry, \<open>None\<close> while only the class attribute
  \<open>authorized = False\<close> exists.
\<close>

datatype authorizer = SMSAuth "bool option" | NotARobot "bool option"

text \<open>
  The payment processors hold their credential and, for the debit variant, a reference to
  an authorizer. They are never mutated after construction.
\<close>

datatype processor =
    CreditPaymentProcessor string
  | DebitPaymentProcessor string aid
  | BitcoinPaymentProcessor string

text \<open>
  The store: the three list objects of the class \<open>Order\<close>, the dictionaries of the order
  and authorizer instances with the number of instances constructed so far, and the lines
  printed. Identities are handed out in order of construction; an identity that no
  constructor has returned yet names no object of the program.
\<close>

record world =
  cls_items :: "string list"
  cls_quantities :: "int list"
  cls_prices :: "int list"
  orders :: "oid \<Rightarrow> order_inst"
  n_orders :: nat
  auths :: "aid \<Rightarrow> authorizer"
  n_auths :: nat
  out :: "string list"

definition cls_status :: string where
  "cls_status = ''open''"

definition empty_inst :: order_inst where
  "empty_inst = \<lparr>d_items = None, d_quantities = None, d_prices = None, d_status = None\<rparr>"

text \<open>The store once the class bodies have been executed and no object exists yet.\<close>

definition init :: world where
  "init = \<lparr>cls_items = [], cls_quantities = [], cls_prices = [],
            orders = (\<lambda>_. empty_inst), n_orders = 0,
            auths = (\<lambda>_. SMSAuth None), n_auths = 0, out = []\<rparr>"

subsection \<open>Attribute lookup on an order\<close>

definition items_of :: "world \<Rightarrow> oid \<Rightarrow> string list" where
  "items_of w oi = (case d_items (orders w oi) of None \<Rightarrow> cls_items w | Some xs \<Rightarrow> xs)"

definition quantities_of :: "world \<Rightarrow> oid \<Rightarrow> int list" where
  "quantities_of w oi =
     (case d_quantities (orders w oi) of None \<Rightarrow> cls_quantities w | Some xs \<Rightarrow> xs)"

definition prices_of :: "world \<Rightarrow> oid \<Rightarrow> int list" where
  "prices_of w oi = (case d_prices (orders w oi) of None \<Rightarrow> cls_prices w | Some xs \<Rightarrow> xs)"

definition status_of :: "world \<Rightarrow> oid \<Rightarrow> string" where
  "status_of w oi = (case d_status (orders w oi) of None \<Rightarrow> cls_status | Some s \<Rightarrow> s)"

subsection \<open>Order\<close>

text \<open>\<open>Order()\<close>: the class has no \<open>__init__\<close>, the new instance has an empty dictionary.\<close>

definition new_order :: "world \<Rightarrow> oid \<times> world" where
  "new_order w =
     (n_orders w, w\<lparr>orders := (orders w)(n_orders w := empty_inst),
                     n_orders := Suc (n_orders w)\<rparr>)"

text \<open>
  \<open>self.items.append(name)\<close> and its two siblings: the list found by attribute lookup is
  extended in place, the list of the class when the instance has none of its own.
\<close>

definition append_items :: "oid \<Rightarrow> string \<Rightarrow> world \<Rightarrow> world" where
  "append_items oi name w =
     (case d_items (orders w oi) of
        None \<Rightarrow> w\<lparr>cls_items := cls_items w @ [name]\<rparr>
      | Some xs \<Rightarrow> w\<lparr>orders := (orders w)(oi := (orders w oi)\<lparr>d_items := Some (xs @ [name])\<rparr>)\<rparr>)"

definition append_quantities :: "oid \<Rightarrow> int \<Rightarrow> world \<Rightarrow> world" where
  "append_quantities oi quantity w =
     (case d_quantities (orders w oi) of
        None \<Rightarrow> w\<lparr>cls_quantities := cls_quantities w @ [quantity]\<rparr>
      | Some xs \<Rightarrow>
          w\<lparr>orders := (orders w)(oi := (orders w oi)\<lparr>d_quantities := Some (xs @ [quantity])\<rparr>)\<rparr>)"

definition append_prices :: "oid \<Rightarrow> int \<Rightarrow> world \<Rightarrow> world" where
  "append_prices oi price w =
     (case d_prices (orders w oi) of
        None \<Rightarrow> w\<lparr>cls_prices := cls_prices w @ [price]\<rparr>
      | Some xs \<Rightarrow> w\<lparr>orders := (orders w)(oi := (orders w oi)\<lparr>d_prices := Some (xs @ [price])\<rparr>)\<rparr>)"

definition add_item :: "oid \<Rightarrow> string \<Rightarrow> int \<Rightarrow> int \<Rightarrow> world \<Rightarrow> world" where
  "add_item oi name quantity price w =
     append_prices oi price (append_quantities oi quantity (append_items oi name w))"

text \<open>
  The loop of \<open>total_price\<close> over \<open>range(len(self.prices))\<close>. The index is below the length
  of the prices by construction; \<open>self.quantities[i]\<close> raises \<open>IndexError\<close> when the
  quantities are shorter.
\<close>

fun total_loop :: "int list \<Rightarrow> int list \<Rightarrow> nat list \<Rightarrow> int \<Rightarrow> error + int" where
  "total_loop qs ps [] tot = Inr tot"
| "total_loop qs ps (i # rest) tot =
     (if i < length qs then total_loop qs ps rest (tot + qs ! i * ps ! i)
      else Inl IndexError)"

definition total_price :: "oid \<Rightarrow> world \<Rightarrow> (error + int) \<times> world" where
  "total_price oi w =
     (total_loop (quantities_of w oi) (prices_of w oi) [0..<length (prices_of w oi)] 0, w)"

text \<open>
  Assignments of a new list to an attribute of an instance, as the \<open>setUp\<close> methods of
  the test suite do (\<open>self.order.items = []\<close>).
\<close>

definition assign_items :: "oid \<Rightarrow> string list \<Rightarrow> world \<Rightarrow> world" where
  "assign_items oi xs w = w\<lparr>orders := (orders w)(oi := (orders w oi)\<lparr>d_items := Some xs\<rparr>)\<rparr>"

definition assign_quantities :: "oid \<Rightarrow> int list \<Rightarrow> world \<Rightarrow> world" where
  "assign_quantities oi xs w =
     w\<lparr>orders := (orders w)(oi := (orders w oi)\<lparr>d_quantities := Some xs\<rparr>)\<rparr>"

definition assign_prices :: "oid \<Rightarrow> int list \<Rightarrow> world \<Rightarrow> world" where
  "assign_prices oi xs w = w\<lparr>orders := (orders w)(oi := (orders w oi)\<lparr>d_prices := Some xs\<rparr>)\<rparr>"

definition assign_status :: "oid \<Rightarrow> string \<Rightarrow> world \<Rightarrow> world" where
  "assign_status oi s w = w\<lparr>orders := (orders w)(oi := (orders w oi)\<lparr>d_status := Some s\<rparr>)\<rparr>"

text \<open>
  \<open>TestOrder.setUp\<close> of the test suite: a new order, then a new empty list assigned to
  each of its three list attributes ("Reset class variables to avoid interference between
  tests").
\<close>

definition setUp_order :: "world \<Rightarrow> oid \<times> world" where
  "setUp_order w =
     (fst (new_order w),
      assign_prices (fst (new_order w)) []
        (assign_quantities (fst (new_order w)) []
          (assign_items (fst (new_order w)) [] (snd (new_order w)))))"

subsection \<open>Authorizers\<close>

definition new_SMSAuth :: "world \<Rightarrow> aid \<times> world" where
  "new_SMSAuth w =
     (n_auths w, w\<lparr>auths := (auths w)(n_auths w := SMSAuth None), n_auths := Suc (n_auths w)\<rparr>)"

definition new_NotARobot :: "world \<Rightarrow> aid \<times> world" where
  "new_NotARobot w =
     (n_auths w, w\<lparr>auths := (auths w)(n_auths w := NotARobot None), n_auths := Suc (n_auths w)\<rparr>)"

text \<open>\<open>return self.authorized\<close>, the same method body in both classes.\<close>

fun authorized :: "authorizer \<Rightarrow> bool" where
  "authorized (SMSAuth None) = False"
| "authorized (SMSAuth (Some b)) = b"
| "authorized (NotARobot None) = False"
| "authorized (NotARobot (Some b)) = b"

definition is_authorized :: "aid \<Rightarrow> world \<Rightarrow> bool" where
  "is_authorized a w = authorized (auths w a)"

text \<open>
  \<open>verify_code\<close> exists on \<open>SMSAuth\<close> only and \<open>not_a_robot\<close> on \<open>NotARobot\<close> only; on an
  object of the other class the call raises \<open>AttributeError\<close> before anything happens.
\<close>

definition verify_code :: "aid \<Rightarrow> string \<Rightarrow> world \<Rightarrow> (error + unit) \<times> world" where
  "verify_code a code w =
     (case auths w a of
        SMSAuth _ \<Rightarrow>
          (Inr (), w\<lparr>auths := (auths w)(a := SMSAuth (Some True)),
                     out := out w @ [''Verifying code: '' @ code]\<rparr>)
      | NotARobot _ \<Rightarrow> (Inl AttributeError, w))"

definition not_a_robot :: "aid \<Rightarrow> world \<Rightarrow> (error + unit) \<times> world" where
  "not_a_robot a w =
     (case auths w a of
        NotARobot _ \<Rightarrow>
          (Inr (), w\<lparr>auths := (auths w)(a := NotARobot (Some True)),
                     out := out w @ [''Not a robot'']\<rparr>)
      | SMSAuth _ \<Rightarrow> (Inl AttributeError, w))"

subsection \<open>Payment processors\<close>

definition print_lines :: "string list \<Rightarrow> world \<Rightarrow> world" where
  "print_lines ls w = w\<lparr>out := out w @ ls\<rparr>"

fun pay :: "processor \<Rightarrow> oid \<Rightarrow> world \<Rightarrow> (error + unit) \<times> world" where
  "pay (CreditPaymentProcessor security_code) oi w =
     (Inr (), assign_status oi ''PAID''
        (print_lines [''Processing credit payment type'',
                      ''Verifying security code: '' @ security_code] w))"
| "pay (DebitPaymentProcessor security_code auth) oi w =
     (if \<not> is_authorized auth w then (Inl NotAuthorized, w)
      else (Inr (), assign_status oi ''PAID''
        (print_lines [''Processing debit payment type'',
                      ''Verifying security code: '' @ security_code] w)))"
| "pay (BitcoinPaymentProcessor wallet_id) oi w =
     (Inr (), assign_status oi ''PAID''
        (print_lines [''Processing bitcoin payment type'',
                      ''Verifying security code: '' @ wallet_id] w))"

subsection \<open>Sequences of operations\<close>

text \<open>
  The constructors and methods that the program offers, as data, so that statements can
  range over every sequence of calls. A call that raises leaves the store as it was at the
  raise; a caller that catches the exception carries on from there.
\<close>

datatype op =
    NewOrder
  | AddItem oid string int int
  | TotalPrice oid
  | Pay processor oid
  | NewSMSAuth
  | NewNotARobot
  | VerifyCode aid string
  | NotARobotCall aid
  | IsAuthorized aid

fun step :: "op \<Rightarrow> world \<Rightarrow> world" where
  "step NewOrder w = snd (new_order w)"
| "step (AddItem oi name quantity price) w = add_item oi name quantity price w"
| "step (TotalPrice oi) w = snd (total_price oi w)"
| "step (Pay pr oi) w = snd (pay pr oi w)"
| "step NewSMSAuth w = snd (new_SMSAuth w)"
| "step NewNotARobot w = snd (new_NotARobot w)"
| "step (VerifyCode a code) w = snd (verify_code a code w)"
| "step (NotARobotCall a) w = snd (not_a_robot a w)"
| "step (IsAuthorized a) w = w"

fun run :: "op list \<Rightarrow> world \<Rightarrow> world" where
  "run [] w = w"
| "run (x # xs) w = run xs (step x w)"

text \<open>Adding a sequence of line items to one order, one \<open>add_item\<close> call each.\<close>

fun add_items :: "oid \<Rightarrow> (string \<times> int \<times> int) list \<Rightarrow> world \<Rightarrow> world" where
  "add_items oi [] w = w"
| "add_items oi ((name, quantity, price) # rest) w =
     add_items oi rest (add_item oi name quantity price w)"

subsection \<open>Notions of the specification\<close>

text \<open>
  The dot product of the quantities and the prices, and the sum of quantity times price
  over a sequence of line items, as the specification words the total.
\<close>

definition dot_product :: "int list \<Rightarrow> int list \<Rightarrow> int" where
  "dot_product qs ps = sum_list (map2 (*) qs ps)"

definition lines_total :: "(string \<times> int \<times> int) list \<Rightarrow> int" where
  "lines_total ts = sum_list (map (\<lambda>(name, quantity, price). quantity * price) ts)"

text \<open>The three sequences of an order are parallel: they have the same length.\<close>

definition parallel :: "world \<Rightarrow> oid \<Rightarrow> bool" where
  "parallel w oi \<longleftrightarrow>
     length (items_of w oi) = length (quantities_of w oi) \<and>
     length (quantities_of w oi) = length (prices_of w oi)"

text \<open>An order whose three sequences are the lists of the class.\<close>

definition on_class_lists :: "world \<Rightarrow> oid \<Rightarrow> bool" where
  "on_class_lists w oi \<longleftrightarrow>
     d_items (orders w oi) = None \<and> d_quantities (orders w oi) = None \<and>
     d_prices (orders w oi) = None"

section \<open>Auxiliary facts\<close>

subsection \<open>What \<open>add_item\<close> and \<open>total_price\<close> do to the sequences\<close>

lemma items_of_append_items [simp]:
  "items_of (append_items oi name w) oi = items_of w oi @ [name]"
  by (simp add: items_of_def append_items_def split: option.splits)

lemma quantities_of_append_items [simp]:
  "quantities_of (append_items oi name w) oj = quantities_of w oj"
  by (simp add: quantities_of_def append_items_def split: option.splits)

lemma prices_of_append_items [simp]:
  "prices_of (append_items oi name w) oj = prices_of w oj"
  by (simp add: prices_of_def append_items_def split: option.splits)

lemma status_of_append_items [simp]:
  "status_of (append_items oi name w) oj = status_of w oj"
  by (simp add: status_of_def append_items_def split: option.splits)

lemma items_of_append_quantities [simp]:
  "items_of (append_quantities oi q w) oj = items_of w oj"
  by (simp add: items_of_def append_quantities_def split: option.splits)

lemma quantities_of_append_quantities [simp]:
  "quantities_of (append_quantities oi q w) oi = quantities_of w oi @ [q]"
  by (simp add: quantities_of_def append_quantities_def split: option.splits)

lemma prices_of_append_quantities [simp]:
  "prices_of (append_quantities oi q w) oj = prices_of w oj"
  by (simp add: prices_of_def append_quantities_def split: option.splits)

lemma status_of_append_quantities [simp]:
  "status_of (append_quantities oi q w) oj = status_of w oj"
  by (simp add: status_of_def append_quantities_def split: option.splits)

lemma items_of_append_prices [simp]:
  "items_of (append_prices oi p w) oj = items_of w oj"
  by (simp add: items_of_def append_prices_def split: option.splits)

lemma quantities_of_append_prices [simp]:
  "quantities_of (append_prices oi p w) oj = quantities_of w oj"
  by (simp add: quantities_of_def append_prices_def split: option.splits)

lemma prices_of_append_prices [simp]:
  "prices_of (append_prices oi p w) oi = prices_of w oi @ [p]"
  by (simp add: prices_of_def append_prices_def split: option.splits)

lemma status_of_append_prices [simp]:
  "status_of (append_prices oi p w) oj = status_of w oj"
  by (simp add: status_of_def append_prices_def split: option.splits)

lemma items_of_add_item:
  "items_of (add_item oi name q p w) oi = items_of w oi @ [name]"
  by (simp add: add_item_def)

lemma quantities_of_add_item:
  "quantities_of (add_item oi name q p w) oi = quantities_of w oi @ [q]"
  by (simp add: add_item_def)

lemma prices_of_add_item:
  "prices_of (add_item oi name q p w) oi = prices_of w oi @ [p]"
  by (simp add: add_item_def)

lemma status_of_add_item:
  "status_of (add_item oi name q p w) oj = status_of w oj"
  by (simp add: add_item_def)

lemma total_loop_sum:
  "\<forall>i \<in> set ix. i < length qs \<Longrightarrow>
   total_loop qs ps ix acc = Inr (acc + sum_list (map (\<lambda>i. qs ! i * ps ! i) ix))"
  by (induction ix arbitrary: acc) simp_all

lemma map_index_zip:
  "length qs = length ps \<Longrightarrow> map (\<lambda>i. qs ! i * ps ! i) [0..<length ps] = map2 (*) qs ps"
  by (rule nth_equalityI) simp_all

lemma total_loop_dot_product:
  "length qs = length ps \<Longrightarrow> total_loop qs ps [0..<length ps] 0 = Inr (dot_product qs ps)"
  by (simp add: total_loop_sum map_index_zip dot_product_def)

lemma dot_product_snoc:
  "length qs = length ps \<Longrightarrow> dot_product (qs @ [q]) (ps @ [p]) = dot_product qs ps + q * p"
  by (simp add: dot_product_def)

lemma total_price_parallel:
  "parallel w oi \<Longrightarrow>
   total_price oi w = (Inr (dot_product (quantities_of w oi) (prices_of w oi)), w)"
  by (simp add: total_price_def parallel_def total_loop_dot_product)

lemma parallel_add_item: "parallel w oi \<Longrightarrow> parallel (add_item oi name q p w) oi"
  by (simp add: parallel_def items_of_add_item quantities_of_add_item prices_of_add_item)

lemma parallel_add_items: "parallel w oi \<Longrightarrow> parallel (add_items oi ts w) oi"
  by (induction oi ts w rule: add_items.induct) (simp_all add: parallel_add_item)

lemma items_of_add_items:
  "items_of (add_items oi ts w) oi = items_of w oi @ map fst ts"
  by (induction oi ts w rule: add_items.induct) (simp_all add: items_of_add_item)

lemma quantities_of_add_items:
  "quantities_of (add_items oi ts w) oi = quantities_of w oi @ map (fst \<circ> snd) ts"
  by (induction oi ts w rule: add_items.induct) (simp_all add: quantities_of_add_item)

lemma prices_of_add_items:
  "prices_of (add_items oi ts w) oi = prices_of w oi @ map (snd \<circ> snd) ts"
  by (induction oi ts w rule: add_items.induct) (simp_all add: prices_of_add_item)

lemma dot_product_append:
  "length qs = length ps \<Longrightarrow>
   dot_product (qs @ qs') (ps @ ps') = dot_product qs ps + dot_product qs' ps'"
  by (simp add: dot_product_def)

lemma dot_product_lines:
  "dot_product (map (fst \<circ> snd) ts) (map (snd \<circ> snd) ts) = lines_total ts"
  by (induction ts) (auto simp: dot_product_def lines_total_def)


subsection \<open>Authorizers and order lists across every operation\<close>

lemma auths_add_item [simp]: "auths (add_item oi name q p w) = auths w"
  by (simp add: add_item_def append_items_def append_quantities_def append_prices_def
      split: option.splits)

lemma n_auths_add_item [simp]: "n_auths (add_item oi name q p w) = n_auths w"
  by (simp add: add_item_def append_items_def append_quantities_def append_prices_def
      split: option.splits)

lemma auths_pay [simp]: "auths (snd (pay pr oi w)) = auths w"
  by (cases pr) (simp_all add: assign_status_def print_lines_def)

lemma n_auths_pay [simp]: "n_auths (snd (pay pr oi w)) = n_auths w"
  by (cases pr) (simp_all add: assign_status_def print_lines_def)

lemma step_keeps_authorized:
  assumes "a < n_auths w" and "is_authorized a w"
  shows "a < n_auths (step x w) \<and> is_authorized a (step x w)"
proof (cases x)
  case (VerifyCode b code)
  with assms show ?thesis
    by (cases "auths w b") (auto simp: verify_code_def is_authorized_def)
next
  case (NotARobotCall b)
  with assms show ?thesis
    by (cases "auths w b") (auto simp: not_a_robot_def is_authorized_def)
qed (use assms in \<open>auto simp: is_authorized_def new_order_def total_price_def new_SMSAuth_def
      new_NotARobot_def\<close>)

lemma run_keeps_authorized:
  "a < n_auths w \<Longrightarrow> is_authorized a w \<Longrightarrow>
   a < n_auths (run xs w) \<and> is_authorized a (run xs w)"
proof (induction xs arbitrary: w)
  case Nil
  then show ?case by simp
next
  case (Cons x xs)
  from step_keeps_authorized [OF Cons.prems] Cons.IH show ?case by simp
qed

text \<open>
  As long as no order has lists of its own, the three lists of the class grow together.
\<close>

lemma step_class_lists:
  assumes "length (cls_items w) = length (cls_quantities w)"
    and "length (cls_quantities w) = length (cls_prices w)"
    and "\<forall>oi. on_class_lists w oi"
  shows "length (cls_items (step x w)) = length (cls_quantities (step x w)) \<and>
         length (cls_quantities (step x w)) = length (cls_prices (step x w)) \<and>
         (\<forall>oi. on_class_lists (step x w) oi)"
proof (cases x)
  case (AddItem oj name q p)
  from assms(3) have "on_class_lists w oj" by blast
  with assms AddItem show ?thesis
    by (simp add: on_class_lists_def add_item_def append_items_def append_quantities_def
        append_prices_def)
next
  case (Pay pr oj)
  with assms show ?thesis
    by (cases pr) (simp_all add: on_class_lists_def assign_status_def print_lines_def)
next
  case (VerifyCode b code)
  with assms show ?thesis
    by (cases "auths w b") (simp_all add: verify_code_def on_class_lists_def)
next
  case (NotARobotCall b)
  with assms show ?thesis
    by (cases "auths w b") (simp_all add: not_a_robot_def on_class_lists_def)
qed (use assms in \<open>simp_all add: on_class_lists_def new_order_def total_price_def new_SMSAuth_def
      new_NotARobot_def empty_inst_def\<close>)

lemma run_class_lists:
  "length (cls_items w) = length (cls_quantities w) \<Longrightarrow>
   length (cls_quantities w) = length (cls_prices w) \<Longrightarrow>
   \<forall>oi. on_class_lists w oi \<Longrightarrow>
   length (cls_items (run xs w)) = length (cls_quantities (run xs w)) \<and>
   length (cls_quantities (run xs w)) = length (cls_prices (run xs w)) \<and>
   (\<forall>oi. on_class_lists (run xs w) oi)"
proof (induction xs arbitrary: w)
  case Nil
  then show ?case by simp
next
  case (Cons x xs)
  from step_class_lists [OF Cons.prems] have
    "length (cls_items (step x w)) = length (cls_quantities (step x w))"
    "length (cls_quantities (step x w)) = length (cls_prices (step x w))"
    "\<forall>oi. on_class_lists (step x w) oi"
    by blast+
  from Cons.IH [OF this] show ?case by simp
qed

lemma on_class_lists_parallel:
  "length (cls_items w) = length (cls_quantities w) \<Longrightarrow>
   length (cls_quantities w) = length (cls_prices w) \<Longrightarrow>
   on_class_lists w oi \<Longrightarrow> parallel w oi"
  by (simp add: parallel_def on_class_lists_def items_of_def quantities_of_def prices_of_def)

lemma run_init_parallel: "parallel (run xs init) oi"
proof -
  have "length (cls_items init) = length (cls_quantities init)"
    "length (cls_quantities init) = length (cls_prices init)"
    "\<forall>oi. on_class_lists init oi"
    by (simp_all add: init_def on_class_lists_def empty_inst_def)
  from run_class_lists [OF this, of xs] show ?thesis
    by (blast intro: on_class_lists_parallel)
qed

lemma lists_of_print_lines [simp]:
  "items_of (print_lines ls w) oi = items_of w oi"
  "quantities_of (print_lines ls w) oi = quantities_of w oi"
  "prices_of (print_lines ls w) oi = prices_of w oi"
  "status_of (print_lines ls w) oi = status_of w oi"
  by (simp_all add: print_lines_def items_of_def quantities_of_def prices_of_def status_of_def
      split: option.splits)

lemma lists_of_assign_status [simp]:
  "items_of (assign_status oj s w) oi = items_of w oi"
  "quantities_of (assign_status oj s w) oi = quantities_of w oi"
  "prices_of (assign_status oj s w) oi = prices_of w oi"
  by (simp_all add: assign_status_def items_of_def quantities_of_def prices_of_def
      split: option.splits)

lemma status_of_assign_status [simp]:
  "status_of (assign_status oj s w) oi = (if oi = oj then s else status_of w oi)"
  by (simp add: assign_status_def status_of_def)

lemma lists_of_pay:
  "items_of (snd (pay pr oj w)) oi = items_of w oi"
  "quantities_of (snd (pay pr oj w)) oi = quantities_of w oi"
  "prices_of (snd (pay pr oj w)) oi = prices_of w oi"
  by (cases pr; simp)+

lemma parallel_pay: "parallel (snd (pay pr oj w)) oi = parallel w oi"
  by (simp add: parallel_def lists_of_pay)

subsection \<open>Orders that hold lists of their own\<close>

lemma setUp_order_empty:
  "items_of (snd (setUp_order w)) (fst (setUp_order w)) = [] \<and>
   quantities_of (snd (setUp_order w)) (fst (setUp_order w)) = [] \<and>
   prices_of (snd (setUp_order w)) (fst (setUp_order w)) = [] \<and>
   status_of (snd (setUp_order w)) (fst (setUp_order w)) = ''open''"
  by (simp add: setUp_order_def new_order_def assign_items_def assign_quantities_def
      assign_prices_def items_of_def quantities_of_def prices_of_def status_of_def
      empty_inst_def cls_status_def)

lemma own_lists_untouched_by_others:
  assumes "oj \<noteq> oi"
    and "d_items (orders w oi) = Some xs"
    and "d_quantities (orders w oi) = Some qs"
    and "d_prices (orders w oi) = Some ps"
  shows "items_of (add_item oj name q p w) oi = xs \<and>
         quantities_of (add_item oj name q p w) oi = qs \<and>
         prices_of (add_item oj name q p w) oi = ps"
  using assms
  by (simp add: add_item_def append_items_def append_quantities_def append_prices_def
      items_of_def quantities_of_def prices_of_def split: option.splits)

section \<open>The claims\<close>

text \<open>
  C1: \<open>DebitPaymentProcessor.pay\<close> raises the "Not Authorized" exception exactly when
  \<open>is_authorized()\<close> of its authorizer is false at the time of the call, for every order
  and authorizer; when it is true the call returns normally.
\<close>

theorem debit_pay_raises_iff_unauthorized:
  "(fst (pay (DebitPaymentProcessor sc a) oi w) = Inl NotAuthorized) = (\<not> is_authorized a w) \<and>
   (is_authorized a w \<longrightarrow> fst (pay (DebitPaymentProcessor sc a) oi w) = Inr ())"
  by simp

theorem debit_pay_raises_iff_unauthorized_witness:
  "is_authorized 0 (snd (not_a_robot 0 (snd (new_NotARobot init)))) \<and>
   fst (pay (DebitPaymentProcessor ''9876'' 0) 0
         (snd (not_a_robot 0 (snd (new_NotARobot init))))) = Inr ()"
proof -
  have a: "is_authorized 0 (snd (not_a_robot 0 (snd (new_NotARobot init))))"
    by (simp add: is_authorized_def not_a_robot_def new_NotARobot_def init_def)
  from debit_pay_raises_iff_unauthorized
    [of "''9876''" 0 0 "snd (not_a_robot 0 (snd (new_NotARobot init)))"] a
  show ?thesis by blast
qed

text \<open>
  C2: when \<open>DebitPaymentProcessor.pay\<close> raises for an order whose status is "open", the
  store is the one before the call: the status is still "open" and the items, quantities
  and prices of the order are untouched.
\<close>

theorem debit_pay_unauthorized_unchanged:
  assumes "status_of w oi = ''open''" and "\<not> is_authorized a w"
  shows "pay (DebitPaymentProcessor sc a) oi w = (Inl NotAuthorized, w) \<and>
         status_of (snd (pay (DebitPaymentProcessor sc a) oi w)) oi = ''open'' \<and>
         items_of (snd (pay (DebitPaymentProcessor sc a) oi w)) oi = items_of w oi \<and>
         quantities_of (snd (pay (DebitPaymentProcessor sc a) oi w)) oi = quantities_of w oi \<and>
         prices_of (snd (pay (DebitPaymentProcessor sc a) oi w)) oi = prices_of w oi"
  using assms by simp

theorem debit_pay_unauthorized_unchanged_witness:
  "status_of (add_item 0 ''Test Item'' 1 100 (snd (new_order (snd (new_SMSAuth init))))) 0 = ''open'' \<and>
   \<not> is_authorized 0 (add_item 0 ''Test Item'' 1 100 (snd (new_order (snd (new_SMSAuth init))))) \<and>
   pay (DebitPaymentProcessor ''9876'' 0) 0
     (add_item 0 ''Test Item'' 1 100 (snd (new_order (snd (new_SMSAuth init))))) =
   (Inl NotAuthorized, add_item 0 ''Test Item'' 1 100 (snd (new_order (snd (new_SMSAuth init)))))"
proof -
  let ?w = "add_item 0 ''Test Item'' 1 100 (snd (new_order (snd (new_SMSAuth init))))"
  have s: "status_of ?w 0 = ''open''"
    by (simp add: status_of_add_item)
      (simp add: status_of_def new_order_def new_SMSAuth_def init_def empty_inst_def
        cls_status_def)
  have a: "\<not> is_authorized 0 ?w"
    by (simp add: is_authorized_def new_order_def new_SMSAuth_def init_def)
  from debit_pay_unauthorized_unchanged [OF s a, of "''9876''"] s a
  show ?thesis by blast
qed

text \<open>
  C3: \<open>total_price\<close> returns the sum of quantity times price over the items of the order,
  that is the dot product of its quantities and prices. After any sequence of \<open>add_item\<close>
  calls on an order whose three sequences are parallel, the quantities and prices are the
  earlier ones followed by those added, and the total is the earlier dot product plus the
  sum over the added items; an order with no items totals 0, and the total of items
  added to it is the sum over exactly these.
\<close>

theorem total_price_sums_added_items:
  assumes "parallel w oi"
  shows "quantities_of (add_items oi ts w) oi = quantities_of w oi @ map (fst \<circ> snd) ts \<and>
         prices_of (add_items oi ts w) oi = prices_of w oi @ map (snd \<circ> snd) ts \<and>
         fst (total_price oi (add_items oi ts w)) =
           Inr (dot_product (quantities_of (add_items oi ts w) oi)
                            (prices_of (add_items oi ts w) oi)) \<and>
         fst (total_price oi (add_items oi ts w)) =
           Inr (dot_product (quantities_of w oi) (prices_of w oi) + lines_total ts) \<and>
         (items_of w oi = [] \<longrightarrow>
            fst (total_price oi (add_items oi ts w)) = Inr (lines_total ts)) \<and>
         (items_of w oi = [] \<longrightarrow> fst (total_price oi w) = Inr 0)"
proof -
  let ?w = "add_items oi ts w"
  from assms have len: "length (quantities_of w oi) = length (prices_of w oi)"
    by (simp add: parallel_def)
  have par: "parallel ?w oi"
    using assms by (rule parallel_add_items)
  have tp: "fst (total_price oi ?w) = Inr (dot_product (quantities_of ?w oi) (prices_of ?w oi))"
    using par by (simp add: total_price_parallel)
  have split: "dot_product (quantities_of ?w oi) (prices_of ?w oi) =
      dot_product (quantities_of w oi) (prices_of w oi) + lines_total ts"
    using len
    by (simp add: quantities_of_add_items prices_of_add_items dot_product_append
        dot_product_lines)
  have empty: "dot_product (quantities_of w oi) (prices_of w oi) = 0" if "items_of w oi = []"
    using that assms by (simp add: parallel_def dot_product_def)
  have now: "fst (total_price oi w) = Inr (dot_product (quantities_of w oi) (prices_of w oi))"
    using assms by (simp add: total_price_parallel)
  show ?thesis
    using tp split empty now
    by (simp add: quantities_of_add_items prices_of_add_items)
qed

theorem total_price_sums_added_items_witness:
  "parallel (snd (new_order init)) 0 \<and> items_of (snd (new_order init)) 0 = [] \<and>
   fst (total_price 0 (add_items 0 [(''Mouse'', 3, 25), (''Monitor'', 2, 200)]
          (snd (new_order init)))) = Inr 475 \<and>
   fst (total_price 0 (snd (new_order init))) = Inr 0"
proof -
  have e: "items_of (snd (new_order init)) 0 = []"
    by (simp add: items_of_def new_order_def init_def empty_inst_def)
  have p: "parallel (snd (new_order init)) 0"
    by (simp add: parallel_def items_of_def quantities_of_def prices_of_def new_order_def
        init_def empty_inst_def)
  from total_price_sums_added_items [OF p, of "[(''Mouse'', 3, 25), (''Monitor'', 2, 200)]"] e
  have "fst (total_price 0 (add_items 0 [(''Mouse'', 3, 25), (''Monitor'', 2, 200)]
          (snd (new_order init)))) = Inr (lines_total [(''Mouse'', 3, 25), (''Monitor'', 2, 200)])"
    and "fst (total_price 0 (snd (new_order init))) = Inr 0"
    by blast+
  then show ?thesis using p e by (simp add: lines_total_def)
qed

text \<open>
  C4: a newly constructed order is meant to be empty and to change only through its own
  \<open>add_item\<close>. The code at \<open>a = Order(); a.add_item("Keyboard", 1, 50); b = Order()\<close>:
  the second order, identity 1, already holds the item of the first, and a later
  \<open>add_item\<close> on the first order changes the items of the second. The three lists are
  attributes of the class and every instance appends to the same objects.
\<close>

theorem new_order_shares_class_lists:
  "fst (new_order init) = 0 \<and>
   fst (new_order (add_item 0 ''Keyboard'' 1 50 (snd (new_order init)))) = 1 \<and>
   items_of (snd (new_order (add_item 0 ''Keyboard'' 1 50 (snd (new_order init))))) 1 =
     [''Keyboard''] \<and>
   quantities_of (snd (new_order (add_item 0 ''Keyboard'' 1 50 (snd (new_order init))))) 1 =
     [1] \<and>
   prices_of (snd (new_order (add_item 0 ''Keyboard'' 1 50 (snd (new_order init))))) 1 =
     [50] \<and>
   status_of (snd (new_order (add_item 0 ''Keyboard'' 1 50 (snd (new_order init))))) 1 =
     ''open'' \<and>
   fst (total_price 1 (snd (new_order (add_item 0 ''Keyboard'' 1 50 (snd (new_order init)))))) =
     Inr 50 \<and>
   items_of (add_item 0 ''SSD'' 1 150
     (snd (new_order (add_item 0 ''Keyboard'' 1 50 (snd (new_order init)))))) 1 =
     [''Keyboard'', ''SSD'']"
  by (simp add: new_order_def init_def empty_inst_def add_item_def append_items_def
      append_quantities_def append_prices_def items_of_def quantities_of_def prices_of_def
      status_of_def cls_status_def total_price_def)

text \<open>
  C5: \<open>pay\<close> of the credit and the cryptocurrency processor always returns, \<open>pay\<close> of the
  debit processor returns when its authorizer is authorized, and whenever \<open>pay\<close> returns
  the status of the order is "PAID" while the store is otherwise the one before the call
  except for the printed lines: the items, quantities and prices of every order and the
  status of every other order are as before.
\<close>

theorem pay_sets_status_only:
  "fst (pay (CreditPaymentProcessor sc) oi w) = Inr () \<and>
   fst (pay (BitcoinPaymentProcessor wid) oi w) = Inr () \<and>
   (is_authorized a w \<longrightarrow> fst (pay (DebitPaymentProcessor sc a) oi w) = Inr ()) \<and>
   (fst (pay pr oi w) = Inr () \<longrightarrow>
      status_of (snd (pay pr oi w)) oi = ''PAID'' \<and>
      items_of (snd (pay pr oi w)) oj = items_of w oj \<and>
      quantities_of (snd (pay pr oi w)) oj = quantities_of w oj \<and>
      prices_of (snd (pay pr oi w)) oj = prices_of w oj \<and>
      (oj \<noteq> oi \<longrightarrow> status_of (snd (pay pr oi w)) oj = status_of w oj) \<and>
      snd (pay pr oi w) =
        w\<lparr>orders := (orders w)(oi := (orders w oi)\<lparr>d_status := Some ''PAID''\<rparr>),
          out := out (snd (pay pr oi w))\<rparr>)"
proof -
  have "snd (pay pr oi w) =
        w\<lparr>orders := (orders w)(oi := (orders w oi)\<lparr>d_status := Some ''PAID''\<rparr>),
          out := out (snd (pay pr oi w))\<rparr>" if "fst (pay pr oi w) = Inr ()"
    using that by (cases pr) (simp_all add: assign_status_def print_lines_def split: if_splits)
  moreover have "status_of (snd (pay pr oi w)) oi = ''PAID''" if "fst (pay pr oi w) = Inr ()"
    using that by (cases pr) (simp_all split: if_splits)
  moreover have "status_of (snd (pay pr oi w)) oj = status_of w oj" if "oj \<noteq> oi"
    using that by (cases pr) simp_all
  ultimately show ?thesis
    by (simp add: lists_of_pay)
qed

theorem pay_sets_status_only_witness:
  "is_authorized 0 (snd (verify_code 0 ''1234'' (snd (new_SMSAuth (snd (new_order (snd (new_order init)))))))) \<and>
   fst (pay (DebitPaymentProcessor ''9876'' 0) 0
     (snd (verify_code 0 ''1234'' (snd (new_SMSAuth (snd (new_order (snd (new_order init))))))))) = Inr () \<and>
   (1::nat) \<noteq> 0 \<and>
   status_of (snd (pay (DebitPaymentProcessor ''9876'' 0) 0
     (snd (verify_code 0 ''1234'' (snd (new_SMSAuth (snd (new_order (snd (new_order init)))))))))) 0 = ''PAID'' \<and>
   status_of (snd (pay (DebitPaymentProcessor ''9876'' 0) 0
     (snd (verify_code 0 ''1234'' (snd (new_SMSAuth (snd (new_order (snd (new_order init)))))))))) 1 = ''open''"
proof -
  let ?w = "snd (verify_code 0 ''1234'' (snd (new_SMSAuth (snd (new_order (snd (new_order init)))))))"
  have a: "is_authorized 0 ?w"
    by (simp add: is_authorized_def verify_code_def new_SMSAuth_def new_order_def init_def)
  have o: "status_of ?w 1 = ''open''"
    by (simp add: status_of_def verify_code_def new_SMSAuth_def new_order_def init_def
        empty_inst_def cls_status_def)
  have n: "(1::nat) \<noteq> 0" by simp
  from pay_sets_status_only [of "''9876''" 0 ?w "''9876''" 0 "DebitPaymentProcessor ''9876'' 0" 1] a
  have r: "fst (pay (DebitPaymentProcessor ''9876'' 0) 0 ?w) = Inr ()" by blast
  from pay_sets_status_only [of "''9876''" 0 ?w "''9876''" 0 "DebitPaymentProcessor ''9876'' 0" 1] r n
  have "status_of (snd (pay (DebitPaymentProcessor ''9876'' 0) 0 ?w)) 0 = ''PAID''"
    and "status_of (snd (pay (DebitPaymentProcessor ''9876'' 0) 0 ?w)) 1 = status_of ?w 1"
    by blast+
  with a r n o show ?thesis by simp
qed

text \<open>
  C6: a new \<open>SMSAuth\<close> or \<open>NotARobot\<close> object is not authorized, whatever happened before
  its construction; \<open>verify_code\<close>, respectively \<open>not_a_robot\<close>, returns normally and the
  object is authorized afterwards, in whatever state the object was before the call.
\<close>

theorem verification_authorizes:
  "\<not> is_authorized (fst (new_SMSAuth w)) (snd (new_SMSAuth w)) \<and>
   \<not> is_authorized (fst (new_NotARobot w)) (snd (new_NotARobot w)) \<and>
   fst (verify_code (fst (new_SMSAuth w)) code (snd (new_SMSAuth w))) = Inr () \<and>
   is_authorized (fst (new_SMSAuth w))
     (snd (verify_code (fst (new_SMSAuth w)) code (snd (new_SMSAuth w)))) \<and>
   fst (not_a_robot (fst (new_NotARobot w)) (snd (new_NotARobot w))) = Inr () \<and>
   is_authorized (fst (new_NotARobot w))
     (snd (not_a_robot (fst (new_NotARobot w)) (snd (new_NotARobot w)))) \<and>
   (auths w a = SMSAuth b \<longrightarrow>
      fst (verify_code a code w) = Inr () \<and> is_authorized a (snd (verify_code a code w))) \<and>
   (auths w a = NotARobot b \<longrightarrow>
      fst (not_a_robot a w) = Inr () \<and> is_authorized a (snd (not_a_robot a w)))"
  by (simp add: is_authorized_def new_SMSAuth_def new_NotARobot_def verify_code_def
      not_a_robot_def)

theorem verification_authorizes_witness:
  "auths (snd (new_SMSAuth init)) 0 = SMSAuth None \<and>
   fst (verify_code 0 ''123456'' (snd (new_SMSAuth init))) = Inr () \<and>
   is_authorized 0 (snd (verify_code 0 ''123456'' (snd (new_SMSAuth init)))) \<and>
   auths (snd (not_a_robot 0 (snd (new_NotARobot init)))) 0 = NotARobot (Some True) \<and>
   fst (not_a_robot 0 (snd (not_a_robot 0 (snd (new_NotARobot init))))) = Inr () \<and>
   is_authorized 0 (snd (not_a_robot 0 (snd (not_a_robot 0 (snd (new_NotARobot init))))))"
proof -
  have s: "auths (snd (new_SMSAuth init)) 0 = SMSAuth None"
    by (simp add: new_SMSAuth_def init_def)
  have r: "auths (snd (not_a_robot 0 (snd (new_NotARobot init)))) 0 = NotARobot (Some True)"
    by (simp add: not_a_robot_def new_NotARobot_def init_def)
  from verification_authorizes [of "snd (new_SMSAuth init)" "''123456''" 0 None] s
  have "fst (verify_code 0 ''123456'' (snd (new_SMSAuth init))) = Inr () \<and>
        is_authorized 0 (snd (verify_code 0 ''123456'' (snd (new_SMSAuth init))))"
    by blast
  moreover
  from verification_authorizes
    [of "snd (not_a_robot 0 (snd (new_NotARobot init)))" "''123456''" 0 "Some True"] r
  have "fst (not_a_robot 0 (snd (not_a_robot 0 (snd (new_NotARobot init))))) = Inr () \<and>
        is_authorized 0 (snd (not_a_robot 0 (snd (not_a_robot 0 (snd (new_NotARobot init))))))"
    by blast
  ultimately show ?thesis using s r by blast
qed

text \<open>
  C7: once an existing authorizer is authorized it stays authorized across every
  sequence of constructor and method calls of the program, on this or on any other object.
\<close>

theorem authorized_never_reset:
  assumes "a < n_auths w" and "is_authorized a w"
  shows "is_authorized a (run xs w)"
  using run_keeps_authorized [OF assms] by blast

theorem authorized_never_reset_witness:
  "(0::nat) < n_auths (snd (verify_code 0 ''123456'' (snd (new_SMSAuth init)))) \<and>
   is_authorized 0 (snd (verify_code 0 ''123456'' (snd (new_SMSAuth init)))) \<and>
   is_authorized 0
     (run [IsAuthorized 0, NotARobotCall 0, NewSMSAuth, NewNotARobot, NotARobotCall 2,
           VerifyCode 0 ''999999'', NewOrder, Pay (DebitPaymentProcessor ''9876'' 1) 0]
        (snd (verify_code 0 ''123456'' (snd (new_SMSAuth init)))))"
proof -
  have n: "(0::nat) < n_auths (snd (verify_code 0 ''123456'' (snd (new_SMSAuth init))))"
    by (simp add: verify_code_def new_SMSAuth_def init_def)
  have a: "is_authorized 0 (snd (verify_code 0 ''123456'' (snd (new_SMSAuth init))))"
    by (simp add: is_authorized_def verify_code_def new_SMSAuth_def init_def)
  from authorized_never_reset [OF n a] n a show ?thesis by blast
qed

text \<open>
  C8: with an authorized authorizer, \<open>pay\<close> of the debit processor returns like \<open>pay\<close> of
  the credit and cryptocurrency processors and leaves the same store except for the
  printed lines; in particular the status, items, quantities and prices of every order are
  the same after each of the three.
\<close>

theorem debit_pay_like_credit_and_bitcoin:
  assumes "is_authorized a w"
  shows "fst (pay (DebitPaymentProcessor sc a) oi w) = Inr () \<and>
         fst (pay (CreditPaymentProcessor sc') oi w) = Inr () \<and>
         fst (pay (BitcoinPaymentProcessor wid) oi w) = Inr () \<and>
         (snd (pay (DebitPaymentProcessor sc a) oi w))\<lparr>out := []\<rparr> =
           (snd (pay (CreditPaymentProcessor sc') oi w))\<lparr>out := []\<rparr> \<and>
         (snd (pay (DebitPaymentProcessor sc a) oi w))\<lparr>out := []\<rparr> =
           (snd (pay (BitcoinPaymentProcessor wid) oi w))\<lparr>out := []\<rparr> \<and>
         status_of (snd (pay (DebitPaymentProcessor sc a) oi w)) oj =
           status_of (snd (pay (CreditPaymentProcessor sc') oi w)) oj \<and>
         status_of (snd (pay (DebitPaymentProcessor sc a) oi w)) oj =
           status_of (snd (pay (BitcoinPaymentProcessor wid) oi w)) oj \<and>
         items_of (snd (pay (DebitPaymentProcessor sc a) oi w)) oj =
           items_of (snd (pay (CreditPaymentProcessor sc') oi w)) oj \<and>
         items_of (snd (pay (DebitPaymentProcessor sc a) oi w)) oj =
           items_of (snd (pay (BitcoinPaymentProcessor wid) oi w)) oj \<and>
         quantities_of (snd (pay (DebitPaymentProcessor sc a) oi w)) oj =
           quantities_of (snd (pay (CreditPaymentProcessor sc') oi w)) oj \<and>
         quantities_of (snd (pay (DebitPaymentProcessor sc a) oi w)) oj =
           quantities_of (snd (pay (BitcoinPaymentProcessor wid) oi w)) oj \<and>
         prices_of (snd (pay (DebitPaymentProcessor sc a) oi w)) oj =
           prices_of (snd (pay (CreditPaymentProcessor sc') oi w)) oj \<and>
         prices_of (snd (pay (DebitPaymentProcessor sc a) oi w)) oj =
           prices_of (snd (pay (BitcoinPaymentProcessor wid) oi w)) oj"
proof -
  have "(snd (pay (DebitPaymentProcessor sc a) oi w))\<lparr>out := []\<rparr> =
          (snd (pay (CreditPaymentProcessor sc') oi w))\<lparr>out := []\<rparr>"
    and "(snd (pay (DebitPaymentProcessor sc a) oi w))\<lparr>out := []\<rparr> =
          (snd (pay (BitcoinPaymentProcessor wid) oi w))\<lparr>out := []\<rparr>"
    using assms by (simp_all add: assign_status_def print_lines_def)
  then show ?thesis
    using assms by (simp add: lists_of_pay)
qed

theorem debit_pay_like_credit_and_bitcoin_witness:
  "is_authorized 0 (snd (not_a_robot 0 (snd (new_NotARobot (snd (new_order init)))))) \<and>
   (snd (pay (DebitPaymentProcessor ''9876'' 0) 0
      (snd (not_a_robot 0 (snd (new_NotARobot (snd (new_order init))))))))\<lparr>out := []\<rparr> =
   (snd (pay (CreditPaymentProcessor ''1234'') 0
      (snd (not_a_robot 0 (snd (new_NotARobot (snd (new_order init))))))))\<lparr>out := []\<rparr> \<and>
   (snd (pay (DebitPaymentProcessor ''9876'' 0) 0
      (snd (not_a_robot 0 (snd (new_NotARobot (snd (new_order init))))))))\<lparr>out := []\<rparr> =
   (snd (pay (BitcoinPaymentProcessor ''wallet123'') 0
      (snd (not_a_robot 0 (snd (new_NotARobot (snd (new_order init))))))))\<lparr>out := []\<rparr>"
proof -
  have a: "is_authorized 0 (snd (not_a_robot 0 (snd (new_NotARobot (snd (new_order init))))))"
    by (simp add: is_authorized_def not_a_robot_def new_NotARobot_def new_order_def init_def)
  from debit_pay_like_credit_and_bitcoin [OF a, of "''9876''" 0 "''1234''" "''wallet123''" 0] a
  show ?thesis by blast
qed

text \<open>
  C9: adding ("Keyboard", 1, 50), ("SSD", 1, 150) and ("USB Cable", 2, 5), in that order,
  to an order whose sequences are empty makes \<open>total_price\<close> return 210.
\<close>

theorem keyboard_ssd_cable_total:
  assumes "items_of w oi = []" and "quantities_of w oi = []" and "prices_of w oi = []"
  shows "fst (total_price oi
           (add_item oi ''USB Cable'' 2 5
             (add_item oi ''SSD'' 1 150
               (add_item oi ''Keyboard'' 1 50 w)))) = Inr 210"
proof -
  let ?w = "add_item oi ''USB Cable'' 2 5 (add_item oi ''SSD'' 1 150
              (add_item oi ''Keyboard'' 1 50 w))"
  have i: "items_of ?w oi = [''Keyboard'', ''SSD'', ''USB Cable'']"
    using assms by (simp add: items_of_add_item)
  have q: "quantities_of ?w oi = [1, 1, 2]"
    using assms by (simp add: quantities_of_add_item)
  have p: "prices_of ?w oi = [50, 150, 5]"
    using assms by (simp add: prices_of_add_item)
  have "parallel ?w oi"
    by (simp add: parallel_def i q p)
  then have "fst (total_price oi ?w) = Inr (dot_product [1, 1, 2] [50, 150, 5])"
    by (simp add: total_price_parallel q p)
  then show ?thesis
    by (simp add: dot_product_def)
qed

theorem keyboard_ssd_cable_total_witness:
  "items_of (snd (new_order init)) (fst (new_order init)) = [] \<and>
   quantities_of (snd (new_order init)) (fst (new_order init)) = [] \<and>
   prices_of (snd (new_order init)) (fst (new_order init)) = [] \<and>
   fst (total_price (fst (new_order init))
         (add_item (fst (new_order init)) ''USB Cable'' 2 5
           (add_item (fst (new_order init)) ''SSD'' 1 150
             (add_item (fst (new_order init)) ''Keyboard'' 1 50 (snd (new_order init)))))) =
   Inr 210"
proof -
  have i: "items_of (snd (new_order init)) (fst (new_order init)) = []"
    by (simp add: items_of_def new_order_def init_def empty_inst_def)
  have q: "quantities_of (snd (new_order init)) (fst (new_order init)) = []"
    by (simp add: quantities_of_def new_order_def init_def empty_inst_def)
  have p: "prices_of (snd (new_order init)) (fst (new_order init)) = []"
    by (simp add: prices_of_def new_order_def init_def empty_inst_def)
  from keyboard_ssd_cable_total [OF i q p] i q p show ?thesis by blast
qed

text \<open>
  C10: an order whose items, quantities and prices have the same length keeps this
  through \<open>add_item\<close> on it, which makes each of the three one longer, and through
  \<open>total_price\<close> and \<open>pay\<close>; from such a state \<open>total_price\<close> returns the dot product and
  raises no \<open>IndexError\<close>. In every store that the constructors and methods reach from the
  initial one, each order is in such a state.
\<close>

theorem sequences_stay_parallel:
  "(parallel w oi \<longrightarrow>
      parallel (add_item oi name quantity price w) oi \<and>
      length (items_of (add_item oi name quantity price w) oi) = Suc (length (items_of w oi)) \<and>
      length (quantities_of (add_item oi name quantity price w) oi) =
        Suc (length (quantities_of w oi)) \<and>
      length (prices_of (add_item oi name quantity price w) oi) =
        Suc (length (prices_of w oi)) \<and>
      parallel (snd (total_price oj w)) oi \<and>
      parallel (snd (pay pr oj w)) oi \<and>
      fst (total_price oi w) = Inr (dot_product (quantities_of w oi) (prices_of w oi)) \<and>
      fst (total_price oi w) \<noteq> Inl IndexError) \<and>
   parallel (run xs init) oi \<and>
   fst (total_price oi (run xs init)) \<noteq> Inl IndexError"
proof -
  have "fst (total_price oi (run xs init)) \<noteq> Inl IndexError"
    using run_init_parallel [of xs oi] by (simp add: total_price_parallel)
  then show ?thesis
    by (simp add: run_init_parallel parallel_add_item parallel_pay total_price_parallel
        total_price_def [of oj] items_of_add_item quantities_of_add_item prices_of_add_item)
qed

theorem sequences_stay_parallel_witness:
  "parallel (add_item 0 ''Keyboard'' 1 50 (snd (new_order init))) 0 \<and>
   parallel (add_item 0 ''SSD'' 1 150 (add_item 0 ''Keyboard'' 1 50 (snd (new_order init)))) 0 \<and>
   length (prices_of
     (add_item 0 ''SSD'' 1 150 (add_item 0 ''Keyboard'' 1 50 (snd (new_order init)))) 0) =
   Suc (length (prices_of (add_item 0 ''Keyboard'' 1 50 (snd (new_order init))) 0)) \<and>
   fst (total_price 0 (add_item 0 ''Keyboard'' 1 50 (snd (new_order init)))) \<noteq> Inl IndexError"
proof -
  let ?w = "add_item 0 ''Keyboard'' 1 50 (snd (new_order init))"
  have p: "parallel ?w 0"
    by (simp add: parallel_def items_of_add_item quantities_of_add_item prices_of_add_item)
      (simp add: items_of_def quantities_of_def prices_of_def new_order_def init_def
        empty_inst_def)
  from sequences_stay_parallel [of ?w 0 "''SSD''" 1 150 0 "CreditPaymentProcessor ''1234''" "[]"] p
  show ?thesis by blast
qed

end
